theory Spec2Isabelle
  imports Main
begin

section \<open>The uWebSockets example of graphql-yoga: \<open>examples/uwebsockets/src/app.ts\<close>\<close>

text \<open>
  The example has two handlers. \<open>yogaHandler\<close> adapts one HTTP exchange of the socket
  server to the fetch-style entry point of the engine and writes the computed response
  back; \<open>wsHandler\<close> is the option record handed to the WebSocket bridge. Both are
  embedded below as functions over explicit state: the calls a handler issues on an object
  of the environment (the request body stream, the response sink) are state changes of a
  model of that object, and the functions of the environment the handlers call (the
  engine's \<open>fetch\<close> and \<open>getEnveloped\<close>) are parameters.
\<close>

subsection \<open>The request body stream\<close>

text \<open>
  \<open>new Readable({ read() {} })\<close> is a push-driven stream of Node. The model keeps what a
  consumer of the stream can observe: the chunks made available to it, in order, how often
  end-of-stream has been signalled, and whether the stream has been put in its error state.
  A chunk is opaque. \<open>push(chunk)\<close> appends the chunk; \<open>push(null)\<close> signals end-of-stream
  the first time and is ignored afterwards; \<open>push(chunk)\<close> after end-of-stream adds nothing
  and is Node's \<open>ERR_STREAM_PUSH_AFTER_EOF\<close>. The argument of \<open>push\<close> is \<open>Some chunk\<close>,
  or \<open>None\<close> for \<open>null\<close>.
\<close>

record 'c readable =
  delivered :: "'c list"
  end_signals :: nat
  errored :: bool

definition new_Readable :: "'c readable" where
  "new_Readable = \<lparr>delivered = [], end_signals = 0, errored = False\<rparr>"

definition ended :: "'c readable \<Rightarrow> bool" where
  "ended s = (0 < end_signals s)"

fun push :: "'c option \<Rightarrow> 'c readable \<Rightarrow> 'c readable" where
  "push None s = (if ended s then s else s\<lparr>end_signals := Suc (end_signals s)\<rparr>)"
| "push (Some chunk) s =
     (if ended s then s\<lparr>errored := True\<rparr> else s\<lparr>delivered := delivered s @ [chunk]\<rparr>)"

subsection \<open>Socket callbacks of one exchange\<close>

text \<open>
  The socket layer drives an exchange through two callbacks: \<open>onData(chunk, isLast)\<close> and
  \<open>onAborted()\<close>. The two functions below are the bodies of the callbacks that
  \<open>yogaHandler\<close> registers (lines 55 to 63); both act on the stream \<open>body\<close>.
\<close>

datatype 'c socket_event = Data 'c bool | Aborted

definition onData :: "'c \<Rightarrow> bool \<Rightarrow> 'c readable \<Rightarrow> 'c readable" where
  "onData chunk isLast body =
     (let body = push (Some chunk) body
      in if isLast then push None body else body)"

definition onAborted :: "'c readable \<Rightarrow> 'c readable" where
  "onAborted body = push None body"

fun callback :: "'c socket_event \<Rightarrow> 'c readable \<Rightarrow> 'c readable" where
  "callback (Data chunk isLast) body = onData chunk isLast body"
| "callback Aborted body = onAborted body"

text \<open>The callbacks run in the order in which the socket layer fires the events.\<close>

fun callbacks :: "'c socket_event list \<Rightarrow> 'c readable \<Rightarrow> 'c readable" where
  "callbacks [] body = body"
| "callbacks (ev # evs) body = callbacks evs (callback ev body)"

subsection \<open>The request adapter (lines 48 to 68)\<close>

text \<open>
  A socket-level request is read through three accessors: \<open>getMethod()\<close>, \<open>getUrl()\<close> and
  \<open>forEach\<close>, which calls its argument with each header's key and value; the field
  \<open>forEach\<close> holds these pairs in the order of the calls.
\<close>

record request =
  getMethod :: string
  getUrl :: string
  forEach :: "(string \<times> string) list"

text \<open>
  \<open>headers[key] = value\<close> on the object created by \<open>{}\<close>: an assignment stores the value
  under the key, replacing an earlier one. The one key that is not stored is
  \<open>__proto__\<close>: the object inherits an accessor of that name, and its setter ignores a
  string.
\<close>

definition assign :: "(string \<rightharpoonup> string) \<Rightarrow> string \<Rightarrow> string \<Rightarrow> (string \<rightharpoonup> string)" where
  "assign headers key v = (if key = ''__proto__'' then headers else headers(key \<mapsto> v))"

fun copy_headers :: "(string \<times> string) list \<Rightarrow> (string \<rightharpoonup> string) \<Rightarrow> (string \<rightharpoonup> string)" where
  "copy_headers [] headers = headers"
| "copy_headers ((key, v) # rest) headers = copy_headers rest (assign headers key v)"

text \<open>
  The second argument of \<open>yoga.fetch\<close>: \<open>{ method, headers, body }\<close>, with the field
  \<open>method\<close> under the name \<open>http_method\<close>.
\<close>

record 'c request_init =
  http_method :: string
  headers :: "string \<rightharpoonup> string"
  body :: "'c readable option"

text \<open>
  The synchronous part of \<open>yogaHandler\<close>, up to the call of \<open>yoga.fetch\<close>. \<open>body\<close> stays
  undefined (\<open>None\<close>) for the methods \<open>get\<close> and \<open>head\<close>; for any other method it is a new
  stream and the two callbacks are registered on the exchange.
\<close>

definition request_adapter :: "request \<Rightarrow> 'c request_init" where
  "request_adapter req =
     (let method = getMethod req;
          body = (if method \<noteq> ''get'' \<and> method \<noteq> ''head'' then Some new_Readable else None);
          headers = copy_headers (forEach req) Map.empty
      in \<lparr>http_method = method, headers = headers, body = body\<rparr>)"

text \<open>
  Socket events that fire later reach the stream through the registered callbacks. With
  no stream there is no callback, and the events change nothing.
\<close>

definition socket_events :: "'c socket_event list \<Rightarrow> 'c request_init \<Rightarrow> 'c request_init" where
  "socket_events evs init = init\<lparr>body := map_option (callbacks evs) (body init)\<rparr>"

subsection \<open>The response writer (lines 81 to 98)\<close>

text \<open>
  A computed response: \<open>status\<close>, \<open>statusText\<close>, the headers in the order in which
  \<open>response.headers.forEach\<close> visits them (key first here; the callback receives the value
  first), and the body. \<open>response.body\<close> is null (\<open>None\<close>), an immediate \<open>Uint8Array\<close>, or
  an asynchronous sequence, given by the chunks it yields before it completes.
\<close>

datatype 'c response_body = Uint8Array 'c | AsyncIterable "'c list"

record 'c response =
  status :: nat
  statusText :: string
  response_headers :: "(string \<times> string) list"
  response_body :: "'c response_body option"

text \<open>The calls on the response sink \<open>res\<close>; \<open>End None\<close> is \<open>res.end()\<close>.\<close>

datatype 'c sink_call =
    WriteStatus string
  | WriteHeader string string
  | Write 'c
  | End "'c option"

text \<open>The decimal digits of a number, as the template literal prints \<open>response.status\<close>.\<close>

fun string_of_nat :: "nat \<Rightarrow> string" where
  "string_of_nat n =
     (if n < 10 then [''0123456789'' ! n]
      else string_of_nat (n div 10) @ [''0123456789'' ! (n mod 10)])"

definition status_line :: "'c response \<Rightarrow> string" where
  "status_line response = string_of_nat (status response) @ '' '' @ statusText response"

fun write_headers :: "(string \<times> string) list \<Rightarrow> 'c sink_call list" where
  "write_headers [] = []"
| "write_headers ((key, v) # rest) =
     (if key = ''content-length'' then write_headers rest
      else WriteHeader key v # write_headers rest)"

fun write_body :: "'c response_body option \<Rightarrow> 'c sink_call list" where
  "write_body None = [End None]"
| "write_body (Some (Uint8Array buffer)) = [End (Some buffer)]"
| "write_body (Some (AsyncIterable chunks)) = map Write chunks @ [End None]"

definition response_writer :: "'c response \<Rightarrow> 'c sink_call list" where
  "response_writer response =
     WriteStatus (status_line response)
       # write_headers (response_headers response)
       @ write_body (response_body response)"

subsection \<open>\<open>yogaHandler\<close>\<close>

text \<open>
  What happens on one exchange, in time order: a callback of the socket layer firing, or a
  call of this layer on the sink.
\<close>

datatype 'c io = Fired "'c socket_event" | Sink "'c sink_call"

text \<open>
  The handler adapts the request, awaits \<open>yoga.fetch\<close> and then writes. The events \<open>evs\<close>
  are those the socket layer fires while the handler awaits the engine; the engine reads
  the body stream they have fed. The result is the timeline of the exchange.
\<close>

definition fetch_arguments :: "request \<Rightarrow> 'c socket_event list \<Rightarrow> string \<times> 'c request_init" where
  "fetch_arguments req evs = (getUrl req, socket_events evs (request_adapter req))"

definition yogaHandler ::
  "(string \<Rightarrow> 'c request_init \<Rightarrow> 'c response) \<Rightarrow> request \<Rightarrow> 'c socket_event list \<Rightarrow> 'c io list" where
  "yogaHandler fetch req evs =
     (let (url, init) = fetch_arguments req evs;
          response = fetch url init
      in map Fired evs @ map Sink (response_writer response))"

text \<open>
  The engine behind \<open>yoga.fetch\<close> in the checks below: the example's schema answers the
  query \<open>{ hello }\<close> with this JSON text, sent as an immediate buffer.
\<close>

definition hello_fetch :: "string \<Rightarrow> string request_init \<Rightarrow> string response" where
  "hello_fetch url init =
     \<lparr>status = 200, statusText = ''OK'',
      response_headers = [(''content-type'', ''application/json''), (''content-length'', ''33'')],
      response_body = Some (Uint8Array ''{\"data\":{\"hello\":\"Hello world!\"}}'')\<rparr>"

text \<open>Properties of a timeline and of the calls on a sink.\<close>

fun is_sink :: "'c io \<Rightarrow> bool" where
  "is_sink (Sink call) = True"
| "is_sink (Fired ev) = False"

fun is_write :: "'c sink_call \<Rightarrow> bool" where
  "is_write (Write chunk) = True"
| "is_write call = False"

fun is_end :: "'c sink_call \<Rightarrow> bool" where
  "is_end (End buffer) = True"
| "is_end call = False"

fun is_body_call :: "'c sink_call \<Rightarrow> bool" where
  "is_body_call (Write chunk) = True"
| "is_body_call (End buffer) = True"
| "is_body_call call = False"

text \<open>The calls on the sink that follow the first firing of the abort signal.\<close>

definition writes_after_abort :: "'c io list \<Rightarrow> 'c io list" where
  "writes_after_abort timeline =
     filter is_sink (dropWhile (\<lambda>e. e \<noteq> Fired Aborted) timeline)"



subsection \<open>The options of the WebSocket bridge (lines 101 to 134)\<close>

text \<open>
  The types of the engine are parameters: \<open>'s\<close> a schema, \<open>'d\<close> a parsed document, \<open>'v\<close>
  a variable mapping, \<open>'x\<close> a context value, \<open>'e\<close> a GraphQL error and \<open>'f\<close> an
  implementation of \<open>execute\<close> or \<open>subscribe\<close>. An implementation is applied to execution
  arguments by a function \<open>call\<close>, so that the arguments can carry implementations.
\<close>

record 'v payload =
  operationName :: "string option"
  query :: string
  variables :: 'v

record 'v message =
  msg_id :: string
  payload :: "'v payload"

text \<open>What \<open>yoga.getEnveloped(ctx)\<close> returns. \<open>parse\<close> and \<open>contextFactory\<close> may throw.\<close>

record ('s, 'd, 'x, 'e, 'f) enveloped =
  schema :: 's
  execute :: 'f
  subscribe :: 'f
  contextFactory :: "unit \<Rightarrow> 'e + 'x"
  parse :: "string \<Rightarrow> 'e + 'd"
  validate :: "'s \<Rightarrow> 'd \<Rightarrow> 'e list"

record 'f root_value =
  root_execute :: 'f
  root_subscribe :: 'f

record ('s, 'd, 'v, 'x, 'f) execution_args =
  args_schema :: 's
  args_operationName :: "string option"
  document :: 'd
  variableValues :: 'v
  contextValue :: 'x
  rootValue :: "'f root_value"

text \<open>\<open>execute\<close> and \<open>subscribe\<close> of the options (lines 111 to 113).\<close>

definition wsHandler_execute ::
  "('f \<Rightarrow> ('s, 'd, 'v, 'x, 'f) execution_args \<Rightarrow> 'r) \<Rightarrow> ('s, 'd, 'v, 'x, 'f) execution_args \<Rightarrow> 'r" where
  "wsHandler_execute call args = call (root_execute (rootValue args)) args"

definition wsHandler_subscribe ::
  "('f \<Rightarrow> ('s, 'd, 'v, 'x, 'f) execution_args \<Rightarrow> 'r) \<Rightarrow> ('s, 'd, 'v, 'x, 'f) execution_args \<Rightarrow> 'r" where
  "wsHandler_subscribe call args = call (root_subscribe (rootValue args)) args"

text \<open>
  \<open>onSubscribe\<close> (lines 114 to 133) returns the validation errors or the execution
  arguments, or throws. Its first component is the log of the calls it makes on the engine,
  in order: the object literal is evaluated field by field, so \<open>parse\<close> runs before
  \<open>contextFactory\<close>, and \<open>validate\<close> after both.
\<close>

datatype engine_call = GetEnveloped | Parse string | ContextFactory | Validate

datatype ('e, 'a) subscribe_result = Throws 'e | Errors "'e list" | Arguments 'a

definition wsHandler_onSubscribe ::
  "('k \<Rightarrow> ('s, 'd, 'x, 'e, 'f) enveloped) \<Rightarrow> 'k \<Rightarrow> 'v message
     \<Rightarrow> engine_call list \<times> ('e, ('s, 'd, 'v, 'x, 'f) execution_args) subscribe_result" where
  "wsHandler_onSubscribe getEnveloped ctx msg =
     (let env = getEnveloped ctx
      in case parse env (query (payload msg)) of
           Inl ex \<Rightarrow> ([GetEnveloped, Parse (query (payload msg))], Throws ex)
         | Inr doc \<Rightarrow>
             (case contextFactory env () of
                Inl ex \<Rightarrow> ([GetEnveloped, Parse (query (payload msg)), ContextFactory], Throws ex)
              | Inr cv \<Rightarrow>
                  (let args = \<lparr>args_schema = schema env,
                               args_operationName = operationName (payload msg),
                               document = doc,
                               variableValues = variables (payload msg),
                               contextValue = cv,
                               rootValue = \<lparr>root_execute = execute env,
                                            root_subscribe = subscribe env\<rparr>\<rparr>;
                       errors = validate env (args_schema args) (document args)
                   in ([GetEnveloped, Parse (query (payload msg)), ContextFactory, Validate],
                       if length errors \<noteq> 0 then Errors errors else Arguments args))))"

subsection \<open>The bridge that takes the options\<close>

text \<open>
  Modelled from the spec: \<open>makeBehavior\<close> is the server of the graphql-ws package, and its
  code is not part of the example. Section 4.5 of the specification gives what it does with
  a start-operation frame: it calls \<open>onSubscribe\<close>; a parse failure is surfaced as a
  protocol error; validation errors are the terminal message of the operation, which never
  starts executing; otherwise the operation is started, through the option \<open>subscribe\<close> for
  a subscription and through the option \<open>execute\<close> for a query or a mutation. \<open>kind_of\<close>
  tells the kind of the operation a document selects.
\<close>

datatype operation_kind = Query | Mutation | Subscription

datatype ('e, 'r) outcome =
    ProtocolError 'e
  | ErrorMessage string "'e list"
  | Started string 'r

definition start_operation ::
  "('f \<Rightarrow> ('s, 'd, 'v, 'x, 'f) execution_args \<Rightarrow> 'r) \<Rightarrow> ('d \<Rightarrow> string option \<Rightarrow> operation_kind)
     \<Rightarrow> ('k \<Rightarrow> ('s, 'd, 'x, 'e, 'f) enveloped) \<Rightarrow> 'k \<Rightarrow> 'v message \<Rightarrow> ('e, 'r) outcome" where
  "start_operation call kind_of getEnveloped ctx msg =
     (case snd (wsHandler_onSubscribe getEnveloped ctx msg) of
        Throws ex \<Rightarrow> ProtocolError ex
      | Errors errors \<Rightarrow> ErrorMessage (msg_id msg) errors
      | Arguments args \<Rightarrow>
          (if kind_of (document args) (args_operationName args) = Subscription
           then Started (msg_id msg) (wsHandler_subscribe call args)
           else Started (msg_id msg) (wsHandler_execute call args)))"

text \<open>
  Modelled from the spec: the frames of one connection are handled one by one (section
  4.5: operations are independent of each other). Each frame comes with the engine as it
  is when the frame arrives, since instrumentation may replace the active implementations
  between two frames (section 4.4).
\<close>

definition serve ::
  "('f \<Rightarrow> ('s, 'd, 'v, 'x, 'f) execution_args \<Rightarrow> 'r) \<Rightarrow> ('d \<Rightarrow> string option \<Rightarrow> operation_kind) \<Rightarrow> 'k
     \<Rightarrow> (('k \<Rightarrow> ('s, 'd, 'x, 'e, 'f) enveloped) \<times> 'v message) list \<Rightarrow> ('e, 'r) outcome list" where
  "serve call kind_of ctx frames =
     map (\<lambda>(getEnveloped, msg). start_operation call kind_of getEnveloped ctx msg) frames"

text \<open>
  An engine for the checks below, after the example's schema (a query field \<open>hello\<close>, a
  subscription field \<open>time\<close>). Its active implementations are the numbers \<open>exec\<close> and \<open>sub\<close>;
  a document is the name of the field it selects; the empty query text does not parse; a
  field that the schema lacks gives two validation errors.
\<close>

definition example_enveloped ::
  "nat \<Rightarrow> nat \<Rightarrow> unit \<Rightarrow> (string list, string, nat, string, nat) enveloped" where
  "example_enveloped exec sub ctx =
     \<lparr>schema = [''hello'', ''time''],
      execute = exec,
      subscribe = sub,
      contextFactory = (\<lambda>u. Inr 7),
      parse = (\<lambda>text. if text = [] then Inl ''Syntax Error: Unexpected <EOF>.'' else Inr text),
      validate = (\<lambda>fields doc. if doc \<in> set fields then []
         else [''Cannot query field.'', ''Unknown operation.''])\<rparr>"

text \<open>The same engine with a context factory that throws.\<close>

definition example_enveloped_failing_context ::
  "unit \<Rightarrow> (string list, string, nat, string, nat) enveloped" where
  "example_enveloped_failing_context ctx =
     (example_enveloped 1 2 ctx)\<lparr>contextFactory := (\<lambda>u. Inl ''context factory failed'')\<rparr>"

definition example_kind :: "string \<Rightarrow> string option \<Rightarrow> operation_kind" where
  "example_kind doc name = (if doc = ''time'' then Subscription else Query)"

definition start_message :: "string \<Rightarrow> string \<Rightarrow> unit message" where
  "start_message ident text =
     \<lparr>msg_id = ident, payload = \<lparr>operationName = None, query = text, variables = ()\<rparr>\<rparr>"

section \<open>Properties\<close>

subsection \<open>The body stream under the socket callbacks\<close>

lemma callbacks_append: "callbacks (xs @ ys) s = callbacks ys (callbacks xs s)"
  by (induction xs arbitrary: s) simp_all

lemma callbacks_data:
  "\<not> ended s \<Longrightarrow>
   callbacks (map (\<lambda>c. Data c False) cs) s = s\<lparr>delivered := delivered s @ cs\<rparr>"
proof (induction cs arbitrary: s)
  case Nil
  then show ?case by simp
next
  case (Cons c cs)
  have "\<not> ended (s\<lparr>delivered := delivered s @ [c]\<rparr>)"
    using Cons.prems by (simp add: ended_def)
  then show ?case
    using Cons.prems Cons.IH [of "s\<lparr>delivered := delivered s @ [c]\<rparr>"]
    by (simp add: onData_def)
qed




lemma chunks_then_last:
  "callbacks (map (\<lambda>c. Data c False) cs @ [Data c True]) new_Readable =
     \<lparr>delivered = cs @ [c], end_signals = 1, errored = False\<rparr>"
  by (simp add: callbacks_append callbacks_data ended_def new_Readable_def onData_def)


lemma body_of_fetch_arguments:
  "body (snd (fetch_arguments req evs)) =
     (if getMethod req \<noteq> ''get'' \<and> getMethod req \<noteq> ''head''
      then Some (callbacks evs new_Readable) else None)"
  by (simp add: fetch_arguments_def socket_events_def request_adapter_def)

text \<open>
  Claim C3. \<open>getMethod\<close> returns the verb in lower case. For a request whose method is
  \<open>get\<close> or \<open>head\<close> no stream is constructed: the \<open>body\<close> handed to the engine is absent,
  and stays absent whatever the socket layer fires. For any other method the adapter attaches
  a new stream, and the engine reads it as the registered callbacks have fed it.
\<close>

theorem bodyless_verbs_get_no_stream:
  "(getMethod req = ''get'' \<or> getMethod req = ''head'' \<longrightarrow>
      body (request_adapter req :: 'c request_init) = None \<and>
      body (snd (fetch_arguments req evs) :: 'c request_init) = None) \<and>
   (getMethod req \<noteq> ''get'' \<and> getMethod req \<noteq> ''head'' \<longrightarrow>
      body (request_adapter req :: 'c request_init) = Some new_Readable \<and>
      body (snd (fetch_arguments req evs) :: 'c request_init) = Some (callbacks evs new_Readable))"
  by (auto simp add: body_of_fetch_arguments request_adapter_def)

theorem bodyless_verbs_get_no_stream_witness:
  "body (request_adapter \<lparr>getMethod = ''head'', getUrl = ''/graphql'', forEach = []\<rparr>
      :: string request_init) = None \<and>
   body (snd (fetch_arguments \<lparr>getMethod = ''get'', getUrl = ''/graphql'', forEach = []\<rparr>
      [Data ''ab'' True])) = None \<and>
   body (snd (fetch_arguments \<lparr>getMethod = ''post'', getUrl = ''/graphql'', forEach = []\<rparr>
      [Data ''ab'' True])) = Some \<lparr>delivered = [''ab''], end_signals = 1, errored = False\<rparr>"
  using bodyless_verbs_get_no_stream
    [of "\<lparr>getMethod = ''head'', getUrl = ''/graphql'', forEach = []\<rparr>"
        "[] :: string socket_event list"]
    bodyless_verbs_get_no_stream
    [of "\<lparr>getMethod = ''get'', getUrl = ''/graphql'', forEach = []\<rparr>" "[Data ''ab'' True]"]
    bodyless_verbs_get_no_stream
    [of "\<lparr>getMethod = ''post'', getUrl = ''/graphql'', forEach = []\<rparr>" "[Data ''ab'' True]"]
  by (simp add: onData_def new_Readable_def ended_def)

text \<open>
  Claim C6. On a request that carries a body, chunks \<open>cs\<close> delivered without the last-flag
  and then a chunk \<open>c\<close> with the last-flag reach the consumer as \<open>cs @ [c]\<close>, in arrival
  order; end-of-stream is signalled exactly once, after the final chunk, and the stream is
  not in its error state.
\<close>

theorem chunks_observed_in_arrival_order:
  "getMethod req \<noteq> ''get'' \<and> getMethod req \<noteq> ''head'' \<longrightarrow>
   body (snd (fetch_arguments req (map (\<lambda>c. Data c False) cs @ [Data c True]))) =
     Some \<lparr>delivered = cs @ [c], end_signals = 1, errored = False\<rparr>"
  by (simp add: body_of_fetch_arguments chunks_then_last)

theorem chunks_observed_in_arrival_order_witness:
  "body (snd (fetch_arguments \<lparr>getMethod = ''post'', getUrl = ''/graphql'', forEach = []\<rparr>
      [Data ''{\"query\":'' False, Data ''\"{hello}\"'' False, Data ''}'' True])) =
     Some \<lparr>delivered = [''{\"query\":'', ''\"{hello}\"'', ''}''], end_signals = 1, errored = False\<rparr>"
  using chunks_observed_in_arrival_order
    [of "\<lparr>getMethod = ''post'', getUrl = ''/graphql'', forEach = []\<rparr>"
        "[''{\"query\":'', ''\"{hello}\"'']" "''}''"]
  by simp




subsection \<open>The header mapping\<close>









subsection \<open>The response writer\<close>

lemma write_headers_filter:
  "write_headers hs =
     map (\<lambda>(key, v). WriteHeader key v) (filter (\<lambda>(key, v). key \<noteq> ''content-length'') hs)"
  by (induction hs rule: write_headers.induct) simp_all

lemma write_headers_no_body_call: "filter is_body_call (write_headers hs) = []"
  by (induction hs rule: write_headers.induct) simp_all

lemma write_headers_all_header_calls: "filter (\<lambda>c. \<not> is_body_call c) (write_headers hs) = write_headers hs"
  by (induction hs rule: write_headers.induct) simp_all

lemma write_headers_no_write: "filter is_write (write_headers hs) = []"
  by (induction hs rule: write_headers.induct) simp_all

lemma write_headers_no_end: "filter is_end (write_headers hs) = []"
  by (induction hs rule: write_headers.induct) simp_all

lemma write_headers_no_content_length: "WriteHeader ''content-length'' v \<notin> set (write_headers hs)"
  by (induction hs rule: write_headers.induct) simp_all

lemma write_body_calls: "list_all is_body_call (write_body b)"
  by (induction b rule: write_body.induct) (simp_all add: list_all_iff)

lemma write_body_no_header: "WriteHeader key v \<notin> set (write_body b)"
  by (induction b rule: write_body.induct) auto

lemma filter_write_map_Write: "filter is_write (map Write chunks) = map Write chunks"
  by (induction chunks) simp_all

lemma filter_end_map_Write: "filter is_end (map Write chunks) = []"
  by (induction chunks) simp_all

lemma string_of_nat_200: "string_of_nat 200 = ''200''"
  by code_simp

text \<open>
  Claim C2. The writer's first call writes the status line, the decimal status, a space and
  the status text. Then it writes the headers, each once and in the order given, leaving out
  every header whose key is \<open>content-length\<close>; the calls for the body come last. No call
  forwards a header named \<open>content-length\<close>, whatever its value.
\<close>

theorem status_line_then_headers_then_body:
  "response_writer r =
     WriteStatus (string_of_nat (status r) @ '' '' @ statusText r)
       # map (\<lambda>(key, v). WriteHeader key v)
           (filter (\<lambda>(key, v). key \<noteq> ''content-length'') (response_headers r))
       @ write_body (response_body r) \<and>
   list_all is_body_call (write_body (response_body r)) \<and>
   WriteHeader ''content-length'' v \<notin> set (response_writer r)"
  by (simp add: response_writer_def status_line_def write_headers_filter [symmetric]
      write_body_calls write_headers_no_content_length write_body_no_header)

theorem status_line_then_headers_then_body_witness:
  "response_writer
     \<lparr>status = 200, statusText = ''OK'',
      response_headers = [(''content-type'', ''application/json''), (''content-length'', ''33''),
        (''set-cookie'', ''a=1''), (''set-cookie'', ''b=2'')],
      response_body = Some (AsyncIterable [''ab'', ''cd''])\<rparr> =
     [WriteStatus ''200 OK'', WriteHeader ''content-type'' ''application/json'',
      WriteHeader ''set-cookie'' ''a=1'', WriteHeader ''set-cookie'' ''b=2'',
      Write ''ab'', Write ''cd'', End None]"
  using status_line_then_headers_then_body
    [of "\<lparr>status = 200, statusText = ''OK'',
      response_headers = [(''content-type'', ''application/json''), (''content-length'', ''33''),
        (''set-cookie'', ''a=1''), (''set-cookie'', ''b=2'')],
      response_body = Some (AsyncIterable [''ab'', ''cd''])\<rparr>" "''33''"]
  by (simp add: string_of_nat_200)

text \<open>
  Claim C5, as stated, asks for one write call and then one termination call when the body
  is an immediate buffer. The writer makes no write call there: the buffer is the argument
  of the one call of \<open>end\<close>.
\<close>

theorem buffer_body_is_one_end_call_counterexample:
  "response_writer
     \<lparr>status = 200, statusText = ''OK'', response_headers = [],
      response_body = Some (Uint8Array ''abc'')\<rparr> =
     [WriteStatus ''200 OK'', End (Some ''abc'')] \<and>
   length (filter is_write (response_writer
     \<lparr>status = 200, statusText = ''OK'', response_headers = [],
      response_body = Some (Uint8Array ''abc'')\<rparr>)) = 0"
  by (simp add: response_writer_def status_line_def string_of_nat_200)

text \<open>
  Claim C5, amended. All calls for the body follow the status line and the headers. For an
  immediate buffer they are one call of \<open>end\<close> that carries the whole buffer, and no call of
  \<open>write\<close>; for an asynchronous body of \<open>K\<close> chunks they are \<open>K\<close> calls of \<open>write\<close> in chunk
  order and then \<open>end()\<close>; with no body they are \<open>end()\<close> alone. In each case the exchange is
  terminated exactly once, by the last call.
\<close>

theorem exchange_terminated_exactly_once:
  "response_writer r =
     filter (\<lambda>c. \<not> is_body_call c) (response_writer r) @ filter is_body_call (response_writer r) \<and>
   filter is_body_call (response_writer r) =
     (case response_body r of
        None \<Rightarrow> [End None]
      | Some (Uint8Array buffer) \<Rightarrow> [End (Some buffer)]
      | Some (AsyncIterable chunks) \<Rightarrow> map Write chunks @ [End None]) \<and>
   filter is_write (response_writer r) =
     (case response_body r of Some (AsyncIterable chunks) \<Rightarrow> map Write chunks | _ \<Rightarrow> []) \<and>
   length (filter is_end (response_writer r)) = 1 \<and>
   is_end (last (response_writer r))"
proof (cases "response_body r" rule: write_body.cases)
  case 1
  then show ?thesis
    by (simp add: response_writer_def write_headers_no_body_call write_headers_all_header_calls
        write_headers_no_write write_headers_no_end)
next
  case (2 buffer)
  then show ?thesis
    by (simp add: response_writer_def write_headers_no_body_call write_headers_all_header_calls
        write_headers_no_write write_headers_no_end)
next
  case (3 chunks)
  have "filter is_body_call (map Write chunks) = map Write chunks"
    "filter (\<lambda>c. \<not> is_body_call c) (map Write chunks) = []"
    by (induction chunks) simp_all
  with 3 show ?thesis
    by (simp add: response_writer_def write_headers_no_body_call write_headers_all_header_calls
        write_headers_no_write write_headers_no_end filter_write_map_Write filter_end_map_Write)
qed

theorem exchange_terminated_exactly_once_witness:
  "filter is_body_call (response_writer (hello_fetch ''/graphql''
      \<lparr>http_method = ''post'', headers = Map.empty, body = None\<rparr>)) =
     [End (Some ''{\"data\":{\"hello\":\"Hello world!\"}}'')] \<and>
   filter is_write (response_writer (hello_fetch ''/graphql''
      \<lparr>http_method = ''post'', headers = Map.empty, body = None\<rparr>)) = [] \<and>
   length (filter is_end (response_writer (hello_fetch ''/graphql''
      \<lparr>http_method = ''post'', headers = Map.empty, body = None\<rparr>))) = 1"
  using exchange_terminated_exactly_once
    [of "hello_fetch ''/graphql'' \<lparr>http_method = ''post'', headers = Map.empty, body = None\<rparr>"]
  by (simp add: hello_fetch_def)

subsection \<open>The writer and the abort signal\<close>

lemma filter_sink_map_Fired: "filter is_sink (map Fired evs) = []"
  by (induction evs) simp_all

lemma filter_sink_map_Sink: "filter is_sink (map Sink calls) = map Sink calls"
  by (induction calls) simp_all

lemma sinks_after_abort:
  "Aborted \<in> set evs \<Longrightarrow>
   filter is_sink (dropWhile (\<lambda>e. e \<noteq> Fired Aborted) (map Fired evs @ rest)) = filter is_sink rest"
proof (induction evs)
  case Nil
  then show ?case by simp
next
  case (Cons ev evs)
  then show ?case
    by (cases "ev = Aborted") (simp_all add: filter_sink_map_Fired)
qed

text \<open>
  Claim C9, as stated, says that no call is made on the sink once the abort signal has
  fired. On a request whose abort signal fires while the handler awaits the engine, the
  writer still writes the status line, a header and the body.
\<close>

theorem writer_ignores_abort_counterexample:
  "writes_after_abort
     (yogaHandler hello_fetch \<lparr>getMethod = ''post'', getUrl = ''/graphql'', forEach = []\<rparr>
        [Data ''{\"query\":\"{hello}\"}'' False, Aborted]) =
     [Sink (WriteStatus ''200 OK''), Sink (WriteHeader ''content-type'' ''application/json''),
      Sink (End (Some ''{\"data\":{\"hello\":\"Hello world!\"}}''))]"
  by (simp add: writes_after_abort_def yogaHandler_def fetch_arguments_def hello_fetch_def
      response_writer_def status_line_def)

text \<open>
  Claim C9, amended. The writer does not consult the abort signal. The calls the handler
  makes on the sink are those of the response writer for the computed response, at least
  the status line and the termination, whether or not the abort signal has fired; when it
  has fired while the handler awaited the engine, all of them follow it. The abort callback
  itself only signals end-of-stream on the request body. Discarding what is written to an
  aborted exchange is left to the sink.
\<close>

theorem writer_calls_do_not_depend_on_abort:
  "filter is_sink (yogaHandler fetch req evs) =
     map Sink (response_writer (fetch (getUrl req) (socket_events evs (request_adapter req)))) \<and>
   (Aborted \<in> set evs \<longrightarrow>
      writes_after_abort (yogaHandler fetch req evs) =
        map Sink (response_writer (fetch (getUrl req) (socket_events evs (request_adapter req))))) \<and>
   response_writer (fetch (getUrl req) (socket_events evs (request_adapter req))) \<noteq> [] \<and>
   socket_events [Aborted] init = init\<lparr>body := map_option (push None) (body init)\<rparr>"
proof -
  have "socket_events [Aborted] init = init\<lparr>body := map_option (push None) (body init)\<rparr>"
    by (cases "body init") (simp_all add: socket_events_def onAborted_def)
  moreover have "response_writer r \<noteq> []" for r :: "'a response"
    by (simp add: response_writer_def)
  ultimately show ?thesis
    by (simp add: yogaHandler_def fetch_arguments_def writes_after_abort_def sinks_after_abort
        filter_sink_map_Fired filter_sink_map_Sink Let_def)
qed

theorem writer_calls_do_not_depend_on_abort_witness:
  "filter is_sink
     (yogaHandler hello_fetch \<lparr>getMethod = ''post'', getUrl = ''/graphql'', forEach = []\<rparr>
        [Aborted, Data ''ab'' False]) =
   filter is_sink
     (yogaHandler hello_fetch \<lparr>getMethod = ''post'', getUrl = ''/graphql'', forEach = []\<rparr> []) \<and>
   writes_after_abort
     (yogaHandler hello_fetch \<lparr>getMethod = ''post'', getUrl = ''/graphql'', forEach = []\<rparr>
        [Aborted, Data ''ab'' False]) =
     [Sink (WriteStatus ''200 OK''), Sink (WriteHeader ''content-type'' ''application/json''),
      Sink (End (Some ''{\"data\":{\"hello\":\"Hello world!\"}}''))]"
  using writer_calls_do_not_depend_on_abort
      [of hello_fetch "\<lparr>getMethod = ''post'', getUrl = ''/graphql'', forEach = []\<rparr>"
        "[Aborted, Data ''ab'' False]" "\<lparr>http_method = ''post'', headers = Map.empty, body = None\<rparr>"]
    writer_calls_do_not_depend_on_abort
      [of hello_fetch "\<lparr>getMethod = ''post'', getUrl = ''/graphql'', forEach = []\<rparr>" "[]"
        "\<lparr>http_method = ''post'', headers = Map.empty, body = None\<rparr>"]
  by (auto simp add: hello_fetch_def response_writer_def status_line_def)

subsection \<open>The options of the WebSocket bridge\<close>

lemma onSubscribe_parse_error:
  "parse (getEnveloped ctx) (query (payload msg)) = Inl ex \<Longrightarrow>
   wsHandler_onSubscribe getEnveloped ctx msg =
     ([GetEnveloped, Parse (query (payload msg))], Throws ex)"
  by (simp add: wsHandler_onSubscribe_def)

lemma onSubscribe_context_error:
  "parse (getEnveloped ctx) (query (payload msg)) = Inr doc \<Longrightarrow>
   contextFactory (getEnveloped ctx) () = Inl ex \<Longrightarrow>
   wsHandler_onSubscribe getEnveloped ctx msg =
     ([GetEnveloped, Parse (query (payload msg)), ContextFactory], Throws ex)"
  by (simp add: wsHandler_onSubscribe_def)

lemma onSubscribe_validated:
  "parse (getEnveloped ctx) (query (payload msg)) = Inr doc \<Longrightarrow>
   contextFactory (getEnveloped ctx) () = Inr cv \<Longrightarrow>
   wsHandler_onSubscribe getEnveloped ctx msg =
     ([GetEnveloped, Parse (query (payload msg)), ContextFactory, Validate],
      if validate (getEnveloped ctx) (schema (getEnveloped ctx)) doc \<noteq> []
      then Errors (validate (getEnveloped ctx) (schema (getEnveloped ctx)) doc)
      else Arguments
        \<lparr>args_schema = schema (getEnveloped ctx),
         args_operationName = operationName (payload msg),
         document = doc,
         variableValues = variables (payload msg),
         contextValue = cv,
         rootValue = \<lparr>root_execute = execute (getEnveloped ctx),
                      root_subscribe = subscribe (getEnveloped ctx)\<rparr>\<rparr>)"
  by (simp add: wsHandler_onSubscribe_def Let_def)

lemma onSubscribe_arguments_root:
  assumes "snd (wsHandler_onSubscribe getEnveloped ctx msg) = Arguments args"
  shows "rootValue args =
    \<lparr>root_execute = execute (getEnveloped ctx), root_subscribe = subscribe (getEnveloped ctx)\<rparr>"
proof (cases "parse (getEnveloped ctx) (query (payload msg))")
  case (Inl ex)
  then show ?thesis using assms by (simp add: onSubscribe_parse_error)
next
  case (Inr doc)
  show ?thesis
  proof (cases "contextFactory (getEnveloped ctx) ()")
    case (Inl ex)
    then show ?thesis using assms Inr by (simp add: onSubscribe_context_error)
  next
    case inr: (Inr cv)
    then show ?thesis
      using assms Inr by (auto simp add: onSubscribe_validated split: if_splits)
  qed
qed

lemma example_hello:
  "snd (wsHandler_onSubscribe (example_enveloped exec sub) () (start_message ident ''hello'')) =
     Arguments \<lparr>args_schema = [''hello'', ''time''], args_operationName = None,
       document = ''hello'', variableValues = (), contextValue = 7,
       rootValue = \<lparr>root_execute = exec, root_subscribe = sub\<rparr>\<rparr>"
  by (simp add: wsHandler_onSubscribe_def example_enveloped_def start_message_def)

text \<open>
  Claim C1. Take any start-operation frame of a connection, with the engine as it is when
  the frame arrives. When \<open>onSubscribe\<close> returns execution arguments, their \<open>rootValue\<close>
  holds the \<open>execute\<close> and \<open>subscribe\<close> that \<open>getEnveloped\<close> returned in this very call, the
  options \<open>execute\<close> and \<open>subscribe\<close> invoke exactly these, and so does the operation that
  the bridge starts. Nothing of an earlier frame enters: after the active implementation
  has been replaced, a new operation invokes the replacement.
\<close>

theorem operation_invokes_implementations_resolved_for_it:
  assumes "i < length frames" and "frames ! i = (getEnveloped, msg)"
    and "snd (wsHandler_onSubscribe getEnveloped ctx msg) = Arguments args"
  shows "rootValue args =
      \<lparr>root_execute = execute (getEnveloped ctx), root_subscribe = subscribe (getEnveloped ctx)\<rparr> \<and>
    wsHandler_execute call args = call (execute (getEnveloped ctx)) args \<and>
    wsHandler_subscribe call args = call (subscribe (getEnveloped ctx)) args \<and>
    serve call kind_of ctx frames ! i =
      Started (msg_id msg)
        (if kind_of (document args) (args_operationName args) = Subscription
         then call (subscribe (getEnveloped ctx)) args
         else call (execute (getEnveloped ctx)) args)"
proof -
  have root: "rootValue args =
      \<lparr>root_execute = execute (getEnveloped ctx), root_subscribe = subscribe (getEnveloped ctx)\<rparr>"
    using assms(3) by (rule onSubscribe_arguments_root)
  have "serve call kind_of ctx frames ! i = start_operation call kind_of getEnveloped ctx msg"
    using assms(1,2) by (simp add: serve_def)
  then show ?thesis
    using root assms(3)
    by (simp add: start_operation_def wsHandler_execute_def wsHandler_subscribe_def)
qed

theorem operation_invokes_implementations_resolved_for_it_witness:
  "serve (\<lambda>f args. f) example_kind ()
     [(example_enveloped 1 2, start_message ''A'' ''hello''),
      (example_enveloped 3 2, start_message ''B'' ''hello'')] ! 1 = Started ''B'' 3"
proof -
  have len: "1 < length [(example_enveloped 1 2, start_message ''A'' ''hello''),
      (example_enveloped 3 2, start_message ''B'' ''hello'')]"
    by simp
  have frame: "[(example_enveloped 1 2, start_message ''A'' ''hello''),
      (example_enveloped 3 2, start_message ''B'' ''hello'')] ! 1 =
      (example_enveloped 3 2, start_message ''B'' ''hello'')"
    by simp
  show ?thesis
    using operation_invokes_implementations_resolved_for_it
      [of 1 _ "example_enveloped 3 2" "start_message ''B'' ''hello''" "()" _
        "\<lambda>f args. f" example_kind, OF len frame example_hello]
    by (simp add: example_kind_def example_enveloped_def start_message_def)
qed

text \<open>
  Claim C4. When the document of a start-operation frame has been parsed, the context value
  built, and \<open>validate\<close> returns a list of errors that is not empty, \<open>onSubscribe\<close> returns
  that whole list. The bridge then ends the operation with these errors as its message; the
  outcome is the same for every way of applying an implementation, since none is invoked.
\<close>

theorem validation_errors_end_the_operation:
  assumes "parse (getEnveloped ctx) (query (payload msg)) = Inr doc"
    and "contextFactory (getEnveloped ctx) () = Inr cv"
    and "validate (getEnveloped ctx) (schema (getEnveloped ctx)) doc = errors"
    and "errors \<noteq> []"
  shows "snd (wsHandler_onSubscribe getEnveloped ctx msg) = Errors errors \<and>
    start_operation call kind_of getEnveloped ctx msg = ErrorMessage (msg_id msg) errors"
  using assms by (simp add: start_operation_def onSubscribe_validated)

theorem validation_errors_end_the_operation_witness:
  "snd (wsHandler_onSubscribe (example_enveloped 1 2) () (start_message ''A'' ''invalidField'')) =
     (Errors [''Cannot query field.'', ''Unknown operation.'']
        :: (string, (string list, string, unit, nat, nat) execution_args) subscribe_result) \<and>
   start_operation (\<lambda>f args. f) example_kind (example_enveloped 1 2) ()
       (start_message ''A'' ''invalidField'') =
     ErrorMessage ''A'' [''Cannot query field.'', ''Unknown operation.'']"
proof -
  have p: "parse (example_enveloped 1 2 ()) (query (payload (start_message ''A'' ''invalidField''))) =
      Inr ''invalidField''"
    by (simp add: example_enveloped_def start_message_def)
  have c: "contextFactory (example_enveloped 1 2 ()) () = Inr 7"
    by (simp add: example_enveloped_def)
  have v: "validate (example_enveloped 1 2 ()) (schema (example_enveloped 1 2 ())) ''invalidField'' =
      [''Cannot query field.'', ''Unknown operation.'']"
    by (simp add: example_enveloped_def)
  have n: "[''Cannot query field.'', ''Unknown operation.''] \<noteq> []"
    by simp
  show ?thesis
    using validation_errors_end_the_operation
      [of "example_enveloped 1 2" "()" "start_message ''A'' ''invalidField''" "''invalidField''" 7
        "[''Cannot query field.'', ''Unknown operation.'']" "\<lambda>f args. f" example_kind,
        OF p c v n]
    by (simp add: start_message_def)
qed

text \<open>
  Claim C10. \<open>onSubscribe\<close> first resolves the enveloped functions and parses the query
  text. A query text that does not parse makes it throw the parse exception, after these two
  calls and with no list of errors returned. Otherwise it awaits the context factory and
  only then validates: when the context factory throws, \<open>onSubscribe\<close> throws its exception
  and does not validate, whatever validation would have found; when it returns, its value is
  the context value of the arguments, and it has been built also when validation then fails
  and the errors are returned.
\<close>

theorem context_is_built_before_validation:
  "take 2 (fst (wsHandler_onSubscribe getEnveloped ctx msg)) =
     [GetEnveloped, Parse (query (payload msg))] \<and>
   (parse (getEnveloped ctx) (query (payload msg)) = Inl ex \<longrightarrow>
      wsHandler_onSubscribe getEnveloped ctx msg =
        ([GetEnveloped, Parse (query (payload msg))], Throws ex)) \<and>
   (parse (getEnveloped ctx) (query (payload msg)) = Inr doc \<and>
    contextFactory (getEnveloped ctx) () = Inr cv \<longrightarrow>
      fst (wsHandler_onSubscribe getEnveloped ctx msg) =
        [GetEnveloped, Parse (query (payload msg)), ContextFactory, Validate]) \<and>
   (parse (getEnveloped ctx) (query (payload msg)) = Inr doc \<and>
    contextFactory (getEnveloped ctx) () = Inr cv \<and>
    validate (getEnveloped ctx) (schema (getEnveloped ctx)) doc \<noteq> [] \<longrightarrow>
      wsHandler_onSubscribe getEnveloped ctx msg =
        ([GetEnveloped, Parse (query (payload msg)), ContextFactory, Validate],
         Errors (validate (getEnveloped ctx) (schema (getEnveloped ctx)) doc))) \<and>
   (parse (getEnveloped ctx) (query (payload msg)) = Inr doc \<and>
    contextFactory (getEnveloped ctx) () = Inl cex \<longrightarrow>
      wsHandler_onSubscribe getEnveloped ctx msg =
        ([GetEnveloped, Parse (query (payload msg)), ContextFactory], Throws cex)) \<and>
   (parse (getEnveloped ctx) (query (payload msg)) = Inr doc \<and>
    contextFactory (getEnveloped ctx) () = Inr cv \<and>
    validate (getEnveloped ctx) (schema (getEnveloped ctx)) doc = [] \<longrightarrow>
      wsHandler_onSubscribe getEnveloped ctx msg =
        ([GetEnveloped, Parse (query (payload msg)), ContextFactory, Validate],
         Arguments
           \<lparr>args_schema = schema (getEnveloped ctx),
            args_operationName = operationName (payload msg),
            document = doc,
            variableValues = variables (payload msg),
            contextValue = cv,
            rootValue = \<lparr>root_execute = execute (getEnveloped ctx),
                         root_subscribe = subscribe (getEnveloped ctx)\<rparr>\<rparr>))"
proof -
  have "take 2 (fst (wsHandler_onSubscribe getEnveloped ctx msg)) =
     [GetEnveloped, Parse (query (payload msg))]"
    by (simp add: wsHandler_onSubscribe_def Let_def split: sum.split)
  then show ?thesis
    by (simp add: onSubscribe_parse_error onSubscribe_validated onSubscribe_context_error)
qed

theorem context_is_built_before_validation_witness:
  "wsHandler_onSubscribe (example_enveloped 1 2) () (start_message ''A'' []) =
     ([GetEnveloped, Parse []],
      (Throws ''Syntax Error: Unexpected <EOF>.''
        :: (string, (string list, string, unit, nat, nat) execution_args) subscribe_result)) \<and>
   wsHandler_onSubscribe (example_enveloped 1 2) () (start_message ''A'' ''invalidField'') =
     ([GetEnveloped, Parse ''invalidField'', ContextFactory, Validate],
      (Errors [''Cannot query field.'', ''Unknown operation.'']
        :: (string, (string list, string, unit, nat, nat) execution_args) subscribe_result)) \<and>
   wsHandler_onSubscribe example_enveloped_failing_context ()
       (start_message ''A'' ''invalidField'') =
     ([GetEnveloped, Parse ''invalidField'', ContextFactory],
      (Throws ''context factory failed''
        :: (string, (string list, string, unit, nat, nat) execution_args) subscribe_result)) \<and>
   wsHandler_onSubscribe (example_enveloped 1 2) () (start_message ''A'' ''hello'') =
     ([GetEnveloped, Parse ''hello'', ContextFactory, Validate],
      Arguments \<lparr>args_schema = [''hello'', ''time''], args_operationName = None,
        document = ''hello'', variableValues = (), contextValue = 7,
        rootValue = \<lparr>root_execute = 1, root_subscribe = 2\<rparr>\<rparr>)"
  using context_is_built_before_validation
      [of "example_enveloped 1 2" "()" "start_message ''A'' []"
        "''Syntax Error: Unexpected <EOF>.''" "[]" 7 "[]"]
    context_is_built_before_validation
      [of "example_enveloped 1 2" "()" "start_message ''A'' ''invalidField''"
        "[]" "''invalidField''" 7 "[]"]
    context_is_built_before_validation
      [of example_enveloped_failing_context "()" "start_message ''A'' ''invalidField''"
        "[]" "''invalidField''" 7 "''context factory failed''"]
    context_is_built_before_validation
      [of "example_enveloped 1 2" "()" "start_message ''A'' ''hello''"
        "[]" "''hello''" 7 "[]"]
  by (auto simp add: example_enveloped_def example_enveloped_failing_context_def
      start_message_def)

end
